theory Spec2Isabelle
  imports Complex_Main "HOL-Library.AList"
begin

section \<open>Values, documents and errors\<close>

text \<open>
  Request bodies, stored documents and the dictionaries the handlers return are JSON-like
  values. A Python dict is an association list (\<open>map_of\<close> reads a key,
  \<open>AList.update\<close> assigns one: in place when the key is present, appended otherwise).
  Python floats are modelled as reals (finite values only).
\<close>

datatype val =
    VNull
  | VStr string
  | VNum real
  | VBool bool
  | VList "val list"
  | VDict "(string \<times> val) list"

type_synonym doc = "(string \<times> val) list"

text \<open>
  Every raise of the source is a value: the three \<open>HTTPException\<close>s of main.py, the
  validation failure of pydantic, the failure of the store, and the two exceptions of
  \<open>send_order_email\<close>.
\<close>

datatype error =
    Unauthorized
  | Invalid_ID
  | Not_found
  | ValidationError
  | StoreError
  | RuntimeError
  | ValueError

section \<open>Library functions taken as parameters\<close>

text \<open>
  The functions of third-party libraries that the source calls and whose code is not part of
  the repository are fields of one record, passed to every function that needs them:
  pydantic's coercion of an input to \<open>float\<close> and to \<open>bool\<close>, the validation of an
  \<open>EmailStr\<close> (the normalised address, or a failure), bson's \<open>ObjectId.is_valid\<close>,
  \<open>ObjectId(s)\<close> and \<open>str(oid)\<close>, the identifier the store gives a new document, the
  text an f-string gives a float, \<open>int(s)\<close> on a string, and whether
  \<open>EmailMessage\<close> takes a string as a header value (it raises \<open>ValueError\<close> on a
  line break). \<open>'i\<close> is the type of store identifiers.
\<close>

record 'i ext =
  coerce_float :: "val \<Rightarrow> real option"
  coerce_bool :: "val \<Rightarrow> bool option"
  validate_email :: "string \<Rightarrow> string option"
  oid_is_valid :: "string \<Rightarrow> bool"
  ObjectId :: "string \<Rightarrow> 'i"
  oid_str :: "'i \<Rightarrow> string"
  new_oid :: "nat \<Rightarrow> 'i"
  format_float :: "real \<Rightarrow> string"
  py_int :: "string \<Rightarrow> int option"
  header_ok :: "string \<Rightarrow> bool"

section \<open>schemas.py\<close>

record Product =
  title :: string
  description :: "string option"
  price :: real
  category :: string
  in_stock :: bool
  image_url :: "string option"

record Business =
  name :: string
  email :: string
  phone :: "string option"
  address_line1 :: "string option"
  address_line2 :: "string option"
  city :: "string option"
  state :: "string option"
  postal_code :: "string option"
  country :: "string option"

record InkOrder =
  customer_name :: string
  customer_email :: string
  customer_phone :: "string option"
  color :: string
  quantity_liters :: real
  message :: "string option"
  delivery_address :: "string option"

text \<open>
  A field declared \<open>str = Field(...)\<close> is required: the key must be present and its value
  a string. No length constraint is declared anywhere in schemas.py.
\<close>

definition required_str :: "doc \<Rightarrow> string \<Rightarrow> string option" where
  "required_str d k = (case map_of d k of Some (VStr s) \<Rightarrow> Some s | _ \<Rightarrow> None)"

text \<open>
  A field declared \<open>Optional[str] = None\<close>: an absent key and \<open>null\<close> both give
  \<open>None\<close>, a string gives itself, anything else fails (the outer \<open>None\<close>).
\<close>

definition optional_str :: "doc \<Rightarrow> string \<Rightarrow> string option option" where
  "optional_str d k =
     (case map_of d k of
        None \<Rightarrow> Some None
      | Some VNull \<Rightarrow> Some None
      | Some (VStr s) \<Rightarrow> Some (Some s)
      | Some _ \<Rightarrow> None)"

text \<open>A required \<open>float\<close> field.\<close>

definition required_float :: "'i ext \<Rightarrow> doc \<Rightarrow> string \<Rightarrow> real option" where
  "required_float x d k = (case map_of d k of None \<Rightarrow> None | Some v \<Rightarrow> coerce_float x v)"

text \<open>A required \<open>EmailStr\<close> field: a string that the email validator accepts.\<close>

definition required_email :: "'i ext \<Rightarrow> doc \<Rightarrow> string \<Rightarrow> string option" where
  "required_email x d k =
     (case map_of d k of Some (VStr s) \<Rightarrow> validate_email x s | _ \<Rightarrow> None)"

text \<open>\<open>in_stock: bool = Field(True)\<close>: an absent key gives the default.\<close>

definition default_bool :: "'i ext \<Rightarrow> doc \<Rightarrow> string \<Rightarrow> bool \<Rightarrow> bool option" where
  "default_bool x d k dflt =
     (case map_of d k of None \<Rightarrow> Some dflt | Some v \<Rightarrow> coerce_bool x v)"

text \<open>\<open>Product(**d)\<close>, and the validation of a request body declared \<open>Product\<close>.\<close>

definition Product_validate :: "'i ext \<Rightarrow> doc \<Rightarrow> error + Product" where
  "Product_validate x d =
     (case required_str d ''title'' of None \<Rightarrow> Inl ValidationError | Some t \<Rightarrow>
      case optional_str d ''description'' of None \<Rightarrow> Inl ValidationError | Some de \<Rightarrow>
      case required_float x d ''price'' of None \<Rightarrow> Inl ValidationError | Some p \<Rightarrow>
      if \<not> 0 \<le> p then Inl ValidationError else
      case required_str d ''category'' of None \<Rightarrow> Inl ValidationError | Some c \<Rightarrow>
      case default_bool x d ''in_stock'' True of None \<Rightarrow> Inl ValidationError | Some s \<Rightarrow>
      case optional_str d ''image_url'' of None \<Rightarrow> Inl ValidationError | Some i \<Rightarrow>
      Inr \<lparr>title = t, description = de, price = p, category = c, in_stock = s,
           image_url = i\<rparr>)"

definition Business_validate :: "'i ext \<Rightarrow> doc \<Rightarrow> error + Business" where
  "Business_validate x d =
     (case required_str d ''name'' of None \<Rightarrow> Inl ValidationError | Some n \<Rightarrow>
      case required_email x d ''email'' of None \<Rightarrow> Inl ValidationError | Some e \<Rightarrow>
      case optional_str d ''phone'' of None \<Rightarrow> Inl ValidationError | Some ph \<Rightarrow>
      case optional_str d ''address_line1'' of None \<Rightarrow> Inl ValidationError | Some a1 \<Rightarrow>
      case optional_str d ''address_line2'' of None \<Rightarrow> Inl ValidationError | Some a2 \<Rightarrow>
      case optional_str d ''city'' of None \<Rightarrow> Inl ValidationError | Some ci \<Rightarrow>
      case optional_str d ''state'' of None \<Rightarrow> Inl ValidationError | Some st \<Rightarrow>
      case optional_str d ''postal_code'' of None \<Rightarrow> Inl ValidationError | Some pc \<Rightarrow>
      case optional_str d ''country'' of None \<Rightarrow> Inl ValidationError | Some co \<Rightarrow>
      Inr \<lparr>name = n, email = e, phone = ph, address_line1 = a1, address_line2 = a2,
           city = ci, state = st, postal_code = pc, country = co\<rparr>)"

definition InkOrder_validate :: "'i ext \<Rightarrow> doc \<Rightarrow> error + InkOrder" where
  "InkOrder_validate x d =
     (case required_str d ''customer_name'' of None \<Rightarrow> Inl ValidationError | Some n \<Rightarrow>
      case required_email x d ''customer_email'' of None \<Rightarrow> Inl ValidationError | Some e \<Rightarrow>
      case optional_str d ''customer_phone'' of None \<Rightarrow> Inl ValidationError | Some ph \<Rightarrow>
      case required_str d ''color'' of None \<Rightarrow> Inl ValidationError | Some c \<Rightarrow>
      case required_float x d ''quantity_liters'' of None \<Rightarrow> Inl ValidationError | Some q \<Rightarrow>
      if \<not> 0 < q then Inl ValidationError else
      case optional_str d ''message'' of None \<Rightarrow> Inl ValidationError | Some m \<Rightarrow>
      case optional_str d ''delivery_address'' of None \<Rightarrow> Inl ValidationError | Some a \<Rightarrow>
      Inr \<lparr>customer_name = n, customer_email = e, customer_phone = ph, color = c,
           quantity_liters = q, message = m, delivery_address = a\<rparr>)"

text \<open>\<open>model_dump()\<close>: every declared field, in declaration order; \<open>None\<close> is \<open>null\<close>.\<close>

definition dump_opt :: "string option \<Rightarrow> val" where
  "dump_opt v = (case v of None \<Rightarrow> VNull | Some s \<Rightarrow> VStr s)"

definition Product_model_dump :: "Product \<Rightarrow> doc" where
  "Product_model_dump p =
     [(''title'', VStr (title p)),
      (''description'', dump_opt (description p)),
      (''price'', VNum (price p)),
      (''category'', VStr (category p)),
      (''in_stock'', VBool (in_stock p)),
      (''image_url'', dump_opt (image_url p))]"

definition Business_model_dump :: "Business \<Rightarrow> doc" where
  "Business_model_dump b =
     [(''name'', VStr (name b)),
      (''email'', VStr (email b)),
      (''phone'', dump_opt (phone b)),
      (''address_line1'', dump_opt (address_line1 b)),
      (''address_line2'', dump_opt (address_line2 b)),
      (''city'', dump_opt (city b)),
      (''state'', dump_opt (state b)),
      (''postal_code'', dump_opt (postal_code b)),
      (''country'', dump_opt (country b))]"

definition InkOrder_model_dump :: "InkOrder \<Rightarrow> doc" where
  "InkOrder_model_dump o' =
     [(''customer_name'', VStr (customer_name o')),
      (''customer_email'', VStr (customer_email o')),
      (''customer_phone'', dump_opt (customer_phone o')),
      (''color'', VStr (color o')),
      (''quantity_liters'', VNum (quantity_liters o')),
      (''message'', dump_opt (message o')),
      (''delivery_address'', dump_opt (delivery_address o'))]"

section \<open>The document store\<close>

text \<open>
  The calls a handler makes to the store and to the background-task queue are recorded, in
  order, so that "before any store access" and "persisted before the lookup" are statements
  about the trace.
\<close>

datatype event =
    InsertOne string
  | Find string
  | UpdateOne string
  | DeleteOne string
  | AddTask

text \<open>
  \<open>db\<close>: named collections of documents in their natural (insertion) order. MongoDB gives
  every document an \<open>_id\<close>, so a stored document is its \<open>_id\<close> paired with its other
  fields. \<open>available\<close> is false when \<open>db\<close> is \<open>None\<close> or unreachable; \<open>issued\<close>
  counts the identifiers handed out.
\<close>

record 'i world =
  available :: bool
  colls :: "string \<Rightarrow> ('i \<times> doc) list"
  issued :: nat
  trace :: "event list"

definition record_event :: "event \<Rightarrow> 'i world \<Rightarrow> 'i world" where
  "record_event ev w = w\<lparr>trace := trace w @ [ev]\<rparr>"

text \<open>
  Modelled from the spec: \<open>create_document\<close> of database.py, which is not among the
  sources. Section 4.1: \<open>create(collection, record) \<rightarrow> identifier\<close>; the adapter fails
  with a StoreError. The record is stored under a new identifier at the end of the
  collection, and the identifier is returned as a string (main.py returns it as \<open>id\<close>).
\<close>

definition create_document ::
  "'i ext \<Rightarrow> string \<Rightarrow> doc \<Rightarrow> 'i world \<Rightarrow> (error + string) \<times> 'i world" where
  "create_document x coll d w =
     (if \<not> available w then (Inl StoreError, record_event (InsertOne coll) w)
      else
        let oid = new_oid x (issued w) in
        (Inr (oid_str x oid),
         record_event (InsertOne coll)
           (w\<lparr>colls := (colls w)(coll := colls w coll @ [(oid, d)]),
              issued := Suc (issued w)\<rparr>)))"

text \<open>A filter is a dict of required field values; a document matches when it has them all.\<close>

definition matches :: "doc \<Rightarrow> doc \<Rightarrow> bool" where
  "matches filt d = list_all (\<lambda>(k, v). map_of d k = Some v) filt"

text \<open>
  Modelled from the spec: \<open>get_documents\<close> of database.py, which is not among the
  sources. Section 4.1: \<open>query(collection, filter) \<rightarrow> sequence of records\<close>, where filters
  are simple equality predicates over declared fields; the empty filter selects every
  record.
\<close>

definition get_documents ::
  "string \<Rightarrow> doc \<Rightarrow> 'i world \<Rightarrow> (error + ('i \<times> doc) list) \<times> 'i world" where
  "get_documents coll filt w =
     (if \<not> available w then (Inl StoreError, record_event (Find coll) w)
      else (Inr (filter (\<lambda>(i, d). matches filt d) (colls w coll)), record_event (Find coll) w))"

text \<open>
  \<open>_collection(name).update_one({"_id": oid}, {"$set": fields})\<close> of pymongo: the first
  document whose \<open>_id\<close> is \<open>oid\<close> gets every field of the update assigned; the result is
  \<open>matched_count\<close>.
\<close>

definition set_fields :: "doc \<Rightarrow> doc \<Rightarrow> doc" where
  "set_fields new d = fold (\<lambda>(k, v). AList.update k v) new d"

fun update_first :: "'i \<Rightarrow> doc \<Rightarrow> ('i \<times> doc) list \<Rightarrow> ('i \<times> doc) list" where
  "update_first oid new [] = []"
| "update_first oid new ((i, d) # ds) =
     (if i = oid then (i, set_fields new d) # ds
      else (i, d) # update_first oid new ds)"

definition update_one ::
  "string \<Rightarrow> 'i \<Rightarrow> doc \<Rightarrow> 'i world \<Rightarrow> (error + nat) \<times> 'i world" where
  "update_one coll oid new w =
     (if \<not> available w then (Inl StoreError, record_event (UpdateOne coll) w)
      else
        (Inr (if oid \<in> set (map fst (colls w coll)) then 1 else 0),
         record_event (UpdateOne coll)
           (w\<lparr>colls := (colls w)(coll := update_first oid new (colls w coll))\<rparr>)))"

text \<open>
  \<open>_collection(name).delete_one({"_id": oid})\<close> of pymongo: the first document whose
  \<open>_id\<close> is \<open>oid\<close> is removed; the result is \<open>deleted_count\<close>.
\<close>

fun delete_first :: "'i \<Rightarrow> ('i \<times> doc) list \<Rightarrow> ('i \<times> doc) list" where
  "delete_first oid [] = []"
| "delete_first oid ((i, d) # ds) =
     (if i = oid then ds else (i, d) # delete_first oid ds)"

definition delete_one ::
  "string \<Rightarrow> 'i \<Rightarrow> 'i world \<Rightarrow> (error + nat) \<times> 'i world" where
  "delete_one coll oid w =
     (if \<not> available w then (Inl StoreError, record_event (DeleteOne coll) w)
      else
        (Inr (if oid \<in> set (map fst (colls w coll)) then 1 else 0),
         record_event (DeleteOne coll)
           (w\<lparr>colls := (colls w)(coll := delete_first oid (colls w coll))\<rparr>)))"

section \<open>main.py: configuration\<close>

type_synonym env = "string \<Rightarrow> string option"

definition getenv :: "env \<Rightarrow> string \<Rightarrow> string \<Rightarrow> string" where
  "getenv env k dflt = (case env k of None \<Rightarrow> dflt | Some v \<Rightarrow> v)"

definition ADMIN_TOKEN :: "env \<Rightarrow> string" where
  "ADMIN_TOKEN env = getenv env ''ADMIN_TOKEN'' ''changeme''"

section \<open>main.py: public endpoints\<close>

text \<open>The loop of \<open>list_products\<close>: drop \<open>_id\<close>, build a \<open>Product\<close>, append it.\<close>

fun list_products_loop ::
  "'i ext \<Rightarrow> ('i \<times> doc) list \<Rightarrow> Product list \<Rightarrow> error + Product list" where
  "list_products_loop x [] out = Inr out"
| "list_products_loop x (d # ds) out =
     (case Product_validate x (snd d) of
        Inl e \<Rightarrow> Inl e
      | Inr p \<Rightarrow> list_products_loop x ds (out @ [p]))"

text \<open>
  \<open>filt = {"category": category} if category else {}\<close>: \<open>None\<close> and the empty string are
  both falsy.
\<close>

definition list_products ::
  "'i ext \<Rightarrow> string option \<Rightarrow> 'i world \<Rightarrow> (error + Product list) \<times> 'i world" where
  "list_products x category' w =
     (let filt = (case category' of
                    None \<Rightarrow> []
                  | Some c \<Rightarrow> if c = [] then [] else [(''category'', VStr c)])
      in case get_documents ''product'' filt w of
           (Inl e, w') \<Rightarrow> (Inl e, w')
         | (Inr docs, w') \<Rightarrow> (list_products_loop x docs [], w'))"

section \<open>main.py: email sending\<close>

record EmailMessage =
  Subject :: string
  From :: string
  To :: string
  content :: string

text \<open>\<open>v or '-'\<close> on an optional string: \<open>None\<close> and the empty string are falsy.\<close>

definition or_dash :: "string option \<Rightarrow> string" where
  "or_dash v = (case v of None \<Rightarrow> ''-'' | Some s \<Rightarrow> if s = [] then ''-'' else s)"

definition nl :: string where
  "nl = [CHR 0x0A]"

definition order_email_subject :: "'i ext \<Rightarrow> InkOrder \<Rightarrow> string" where
  "order_email_subject x order =
     ''New Ink Order: '' @ color order @ '' - '' @ format_float x (quantity_liters order)
       @ '' L''"

definition order_email_body :: "'i ext \<Rightarrow> InkOrder \<Rightarrow> string" where
  "order_email_body x order =
     ''New Ink Order Received'' @ nl @ nl
     @ ''Customer: '' @ customer_name order @ nl
     @ ''Email: '' @ customer_email order @ nl
     @ ''Phone: '' @ or_dash (customer_phone order) @ nl @ nl
     @ ''Color: '' @ color order @ nl
     @ ''Quantity (L): '' @ format_float x (quantity_liters order) @ nl
     @ ''Delivery Address: '' @ or_dash (delivery_address order) @ nl @ nl
     @ ''Message:'' @ nl @ or_dash (message order) @ nl"

text \<open>
  \<open>send_order_email\<close> up to the hand-over to smtplib: the result is the host, the port and
  the message given to \<open>smtplib.SMTP\<close>. The SMTP conversation itself (lines 115 to 120)
  is the library's and is not modelled.
\<close>

definition send_order_email ::
  "'i ext \<Rightarrow> env \<Rightarrow> InkOrder \<Rightarrow> Business \<Rightarrow> error + (string \<times> int \<times> EmailMessage)" where
  "send_order_email x env order business =
     (let smtp_host = env ''SMTP_HOST'' in
      case py_int x (getenv env ''SMTP_PORT'' ''587'') of
        None \<Rightarrow> Inl ValueError
      | Some smtp_port \<Rightarrow>
          let smtp_user = env ''SMTP_USER'' in
          (case smtp_host of
             None \<Rightarrow> Inl RuntimeError
           | Some host \<Rightarrow>
               if host = [] \<or> email business = [] then Inl RuntimeError
               else
                 let subject = order_email_subject x order;
                     sender = (case smtp_user of
                                 None \<Rightarrow> email business
                               | Some u \<Rightarrow> if u = [] then email business else u)
                 in if \<not> header_ok x subject \<or> \<not> header_ok x sender
                       \<or> \<not> header_ok x (email business)
                    then Inl ValueError
                    else Inr (host, smtp_port,
                              \<lparr>Subject = subject, From = sender, To = email business,
                               content = order_email_body x order\<rparr>)))"

section \<open>main.py: order intake\<close>

definition stored_not_configured :: val where
  "stored_not_configured = VDict [(''status'', VStr ''stored''), (''email'', VStr ''not_configured'')]"

definition status_ok :: val where
  "status_ok = VDict [(''status'', VStr ''ok'')]"

text \<open>
  \<open>create_ink_order\<close>. \<open>background_tasks\<close> is the queue of the request, passed in and
  returned; \<open>add_task\<close> appends to it and does not raise.
\<close>

definition create_ink_order ::
  "'i ext \<Rightarrow> InkOrder \<Rightarrow> (InkOrder \<times> Business) list \<Rightarrow> 'i world
     \<Rightarrow> (error + val) \<times> (InkOrder \<times> Business) list \<times> 'i world" where
  "create_ink_order x order background_tasks w =
     (case create_document x ''inkorder'' (InkOrder_model_dump order) w of
        (Inl e, w1) \<Rightarrow> (Inl e, background_tasks, w1)
      | (Inr _, w1) \<Rightarrow>
          (case get_documents ''business'' [] w1 of
             (Inl e, w2) \<Rightarrow> (Inl e, background_tasks, w2)
           | (Inr business_docs, w2) \<Rightarrow>
               (case business_docs of
                  [] \<Rightarrow> (Inr stored_not_configured, background_tasks, w2)
                | d # _ \<Rightarrow>
                    (case Business_validate x (snd d) of
                       Inl e \<Rightarrow> (Inl e, background_tasks, w2)
                     | Inr business \<Rightarrow>
                         (Inr status_ok, background_tasks @ [(order, business)],
                          record_event AddTask w2)))))"

text \<open>
  \<open>POST /orders/ink\<close>: the body is validated as an \<open>InkOrder\<close> before the handler runs;
  the queued tasks run after the response is fixed, and what they raise does not reach it.
  The result is the response, the outcome of each dispatch, and the new state.
\<close>

definition post_orders_ink ::
  "'i ext \<Rightarrow> env \<Rightarrow> doc \<Rightarrow> 'i world
     \<Rightarrow> (error + val) \<times> (error + (string \<times> int \<times> EmailMessage)) list \<times> 'i world" where
  "post_orders_ink x env body w =
     (case InkOrder_validate x body of
        Inl e \<Rightarrow> (Inl e, [], w)
      | Inr order \<Rightarrow>
          (case create_ink_order x order [] w of
             (Inl e, tasks, w') \<Rightarrow> (Inl e, [], w')
           | (Inr r, tasks, w') \<Rightarrow>
               (Inr r, map (\<lambda>(o', b). send_order_email x env o' b) tasks, w')))"

section \<open>main.py: admin endpoints\<close>

definition admin_list_products ::
  "'i ext \<Rightarrow> env \<Rightarrow> string option \<Rightarrow> 'i world \<Rightarrow> (error + doc list) \<times> 'i world" where
  "admin_list_products x env x_admin_token w =
     (if x_admin_token \<noteq> Some (ADMIN_TOKEN env) then (Inl Unauthorized, w)
      else case get_documents ''product'' [] w of
             (Inl e, w') \<Rightarrow> (Inl e, w')
           | (Inr docs, w') \<Rightarrow>
               (Inr (map (\<lambda>(i, d). AList.update ''id'' (VStr (oid_str x i)) d) docs), w'))"

definition admin_create_product ::
  "'i ext \<Rightarrow> env \<Rightarrow> Product \<Rightarrow> string option \<Rightarrow> 'i world \<Rightarrow> (error + val) \<times> 'i world" where
  "admin_create_product x env product x_admin_token w =
     (if x_admin_token \<noteq> Some (ADMIN_TOKEN env) then (Inl Unauthorized, w)
      else case create_document x ''product'' (Product_model_dump product) w of
             (Inl e, w') \<Rightarrow> (Inl e, w')
           | (Inr inserted_id, w') \<Rightarrow> (Inr (VDict [(''id'', VStr inserted_id)]), w'))"

definition admin_update_product ::
  "'i ext \<Rightarrow> env \<Rightarrow> string \<Rightarrow> Product \<Rightarrow> string option \<Rightarrow> 'i world
     \<Rightarrow> (error + val) \<times> 'i world" where
  "admin_update_product x env product_id product x_admin_token w =
     (if x_admin_token \<noteq> Some (ADMIN_TOKEN env) then (Inl Unauthorized, w)
      else if \<not> oid_is_valid x product_id then (Inl Invalid_ID, w)
      else case update_one ''product'' (ObjectId x product_id) (Product_model_dump product) w of
             (Inl e, w') \<Rightarrow> (Inl e, w')
           | (Inr matched_count, w') \<Rightarrow>
               if matched_count = 0 then (Inl Not_found, w')
               else (Inr (VDict [(''updated'', VBool True)]), w'))"

definition admin_delete_product ::
  "'i ext \<Rightarrow> env \<Rightarrow> string \<Rightarrow> string option \<Rightarrow> 'i world \<Rightarrow> (error + val) \<times> 'i world" where
  "admin_delete_product x env product_id x_admin_token w =
     (if x_admin_token \<noteq> Some (ADMIN_TOKEN env) then (Inl Unauthorized, w)
      else if \<not> oid_is_valid x product_id then (Inl Invalid_ID, w)
      else case delete_one ''product'' (ObjectId x product_id) w of
             (Inl e, w') \<Rightarrow> (Inl e, w')
           | (Inr deleted_count, w') \<Rightarrow>
               if deleted_count = 0 then (Inl Not_found, w')
               else (Inr (VDict [(''deleted'', VBool True)]), w'))"

definition admin_get_business ::
  "'i ext \<Rightarrow> env \<Rightarrow> string option \<Rightarrow> 'i world \<Rightarrow> (error + doc option) \<times> 'i world" where
  "admin_get_business x env x_admin_token w =
     (if x_admin_token \<noteq> Some (ADMIN_TOKEN env) then (Inl Unauthorized, w)
      else case get_documents ''business'' [] w of
             (Inl e, w') \<Rightarrow> (Inl e, w')
           | (Inr docs, w') \<Rightarrow>
               (case docs of
                  [] \<Rightarrow> (Inr None, w')
                | (i, d) # _ \<Rightarrow> (Inr (Some (AList.update ''id'' (VStr (oid_str x i)) d)), w')))"

definition admin_upsert_business ::
  "'i ext \<Rightarrow> env \<Rightarrow> Business \<Rightarrow> string option \<Rightarrow> 'i world \<Rightarrow> (error + val) \<times> 'i world" where
  "admin_upsert_business x env business x_admin_token w =
     (if x_admin_token \<noteq> Some (ADMIN_TOKEN env) then (Inl Unauthorized, w)
      else case get_documents ''business'' [] w of
             (Inl e, w') \<Rightarrow> (Inl e, w')
           | (Inr docs, w') \<Rightarrow>
               (case docs of
                  [] \<Rightarrow>
                    (case create_document x ''business'' (Business_model_dump business) w' of
                       (Inl e, w'') \<Rightarrow> (Inl e, w'')
                     | (Inr _, w'') \<Rightarrow> (Inr (VDict [(''created'', VBool True)]), w''))
                | (i, _) # _ \<Rightarrow>
                    (case update_one ''business'' i (Business_model_dump business) w' of
                       (Inl e, w'') \<Rightarrow> (Inl e, w'')
                     | (Inr _, w'') \<Rightarrow> (Inr (VDict [(''updated'', VBool True)]), w''))))"

text \<open>
  \<open>POST /admin/products\<close> and \<open>PUT /admin/products/{product_id}\<close>: the body is validated
  as a \<open>Product\<close> before the handler runs.
\<close>

definition post_admin_products ::
  "'i ext \<Rightarrow> env \<Rightarrow> doc \<Rightarrow> string option \<Rightarrow> 'i world \<Rightarrow> (error + val) \<times> 'i world" where
  "post_admin_products x env body x_admin_token w =
     (case Product_validate x body of
        Inl e \<Rightarrow> (Inl e, w)
      | Inr product \<Rightarrow> admin_create_product x env product x_admin_token w)"

definition put_admin_products ::
  "'i ext \<Rightarrow> env \<Rightarrow> string \<Rightarrow> doc \<Rightarrow> string option \<Rightarrow> 'i world \<Rightarrow> (error + val) \<times> 'i world" where
  "put_admin_products x env product_id body x_admin_token w =
     (case Product_validate x body of
        Inl e \<Rightarrow> (Inl e, w)
      | Inr product \<Rightarrow> admin_update_product x env product_id product x_admin_token w)"

section \<open>Sample inputs\<close>

text \<open>
  Concrete library functions, states and payloads on which the theorems below are run. The
  sample identifiers are 24 hexadecimal digits, as MongoDB's are.
\<close>

definition sample_ext :: "string ext" where
  "sample_ext =
     \<lparr>coerce_float = (\<lambda>v. case v of VNum r \<Rightarrow> Some r | _ \<Rightarrow> None),
      coerce_bool = (\<lambda>v. case v of VBool b \<Rightarrow> Some b | _ \<Rightarrow> None),
      validate_email = (\<lambda>s. if CHR ''@'' \<in> set s then Some s else None),
      oid_is_valid =
        (\<lambda>s. length s = 24 \<and> list_all (\<lambda>c. c \<in> set ''0123456789abcdef'') s),
      ObjectId = (\<lambda>s. s),
      oid_str = (\<lambda>i. i),
      new_oid = (\<lambda>n. ''65f0c0a1b2c3d4e5f6a7b8''
                   @ [''0123456789'' ! (n div 10 mod 10), ''0123456789'' ! (n mod 10)]),
      format_float = (\<lambda>r. if r = 5 then ''5.0'' else ''2.5''),
      py_int = (\<lambda>s. if s = ''587'' then Some 587 else None),
      header_ok = (\<lambda>s. CHR 0x0A \<notin> set s \<and> CHR 0x0D \<notin> set s)\<rparr>"

definition empty_world :: "string world" where
  "empty_world = \<lparr>available = True, colls = (\<lambda>_. []), issued = 0, trace = []\<rparr>"

definition no_env :: env where
  "no_env = (\<lambda>_. None)"

definition sample_product :: Product where
  "sample_product =
     \<lparr>title = ''Blue ink'', description = None, price = 120, category = ''ink'',
      in_stock = True, image_url = None\<rparr>"

definition sample_business :: Business where
  "sample_business =
     \<lparr>name = ''Laxmi Enterprise'', email = ''owner@laxmi.example'', phone = Some ''111'',
      address_line1 = None, address_line2 = None, city = None, state = None,
      postal_code = None, country = None\<rparr>"

definition product_world :: "string world" where
  "product_world =
     \<lparr>available = True,
      colls = (\<lambda>_. [])
        (''product'' := [(''65f0c0a1b2c3d4e5f6a7b800'', Product_model_dump sample_product)]),
      issued = 1, trace = []\<rparr>"

definition sample_order :: InkOrder where
  "sample_order =
     \<lparr>customer_name = ''A'', customer_email = ''a@x.com'', customer_phone = None,
      color = ''Red'', quantity_liters = 5, message = None, delivery_address = None\<rparr>"

definition sample_order_body :: doc where
  "sample_order_body =
     [(''customer_name'', VStr ''A''), (''customer_email'', VStr ''a@x.com''),
      (''color'', VStr ''Red''), (''quantity_liters'', VNum 5)]"


definition sample_business2 :: Business where
  "sample_business2 = sample_business\<lparr>phone := Some ''222''\<rparr>"

definition smtp_env :: env where
  "smtp_env = (\<lambda>k. if k = ''SMTP_HOST'' then Some ''smtp.example.com'' else None)"

definition empty_color_body :: doc where
  "empty_color_body =
     [(''customer_name'', VStr ''A''), (''customer_email'', VStr ''a@x.com''),
      (''color'', VStr ''''), (''quantity_liters'', VNum 5)]"

definition no_color_body :: doc where
  "no_color_body =
     [(''customer_name'', VStr ''A''), (''customer_email'', VStr ''a@x.com''),
      (''quantity_liters'', VNum 5)]"

definition empty_title_body :: doc where
  "empty_title_body = [(''title'', VStr ''''), (''price'', VNum 120), (''category'', VStr ''ink'')]"

definition no_title_body :: doc where
  "no_title_body = [(''price'', VNum 120), (''category'', VStr ''ink'')]"

section \<open>The admin gate\<close>

lemma store_never_unauthorized:
  "fst (get_documents coll filt w) \<noteq> Inl Unauthorized"
  "fst (create_document x coll d w) \<noteq> Inl Unauthorized"
  "fst (update_one coll i new w) \<noteq> Inl Unauthorized"
  "fst (delete_one coll i w) \<noteq> Inl Unauthorized"
  by (simp_all add: get_documents_def create_document_def update_one_def delete_one_def Let_def)



text \<open>
  C9. When the environment has no \<open>ADMIN_TOKEN\<close>, the configured secret is the string
  "changeme", and none of the six admin handlers answers a caller presenting "changeme"
  with the authorization failure.
\<close>

theorem default_admin_token:
  assumes "env ''ADMIN_TOKEN'' = None"
  shows "ADMIN_TOKEN env = ''changeme''
       \<and> fst (admin_list_products x env (Some ''changeme'') w) \<noteq> Inl Unauthorized
       \<and> fst (admin_create_product x env product (Some ''changeme'') w) \<noteq> Inl Unauthorized
       \<and> fst (admin_update_product x env product_id product (Some ''changeme'') w)
           \<noteq> Inl Unauthorized
       \<and> fst (admin_delete_product x env product_id (Some ''changeme'') w) \<noteq> Inl Unauthorized
       \<and> fst (admin_get_business x env (Some ''changeme'') w) \<noteq> Inl Unauthorized
       \<and> fst (admin_upsert_business x env business (Some ''changeme'') w) \<noteq> Inl Unauthorized"
proof -
  have tok: "ADMIN_TOKEN env = ''changeme''"
    using assms by (simp add: ADMIN_TOKEN_def getenv_def)
  have l: "fst (admin_list_products x env (Some ''changeme'') w) \<noteq> Inl Unauthorized"
    using store_never_unauthorized(1) [of "''product''" "[]" w]
    by (auto simp: admin_list_products_def tok split: prod.splits sum.splits)
  have c: "fst (admin_create_product x env product (Some ''changeme'') w) \<noteq> Inl Unauthorized"
    using store_never_unauthorized(2) [of x "''product''" "Product_model_dump product" w]
    by (auto simp: admin_create_product_def tok split: prod.splits sum.splits)
  have u: "fst (admin_update_product x env product_id product (Some ''changeme'') w)
      \<noteq> Inl Unauthorized"
    using store_never_unauthorized(3)
      [of "''product''" "ObjectId x product_id" "Product_model_dump product" w]
    by (auto simp: admin_update_product_def tok split: prod.splits sum.splits)
  have d: "fst (admin_delete_product x env product_id (Some ''changeme'') w)
      \<noteq> Inl Unauthorized"
    using store_never_unauthorized(4) [of "''product''" "ObjectId x product_id" w]
    by (auto simp: admin_delete_product_def tok split: prod.splits sum.splits)
  have g: "fst (admin_get_business x env (Some ''changeme'') w) \<noteq> Inl Unauthorized"
    using store_never_unauthorized(1) [of "''business''" "[]" w]
    by (auto simp: admin_get_business_def tok split: prod.splits sum.splits list.splits)
  have b: "fst (admin_upsert_business x env business (Some ''changeme'') w)
      \<noteq> Inl Unauthorized"
    by (auto simp: admin_upsert_business_def tok get_documents_def create_document_def
        update_one_def Let_def split: prod.splits sum.splits list.splits if_splits)
  from tok l c u d g b show ?thesis by simp
qed

theorem default_admin_token_witness:
  "no_env ''ADMIN_TOKEN'' = None
   \<and> ADMIN_TOKEN no_env = ''changeme''
   \<and> fst (admin_list_products sample_ext no_env (Some ''changeme'') empty_world)
       \<noteq> Inl Unauthorized
   \<and> admin_create_product sample_ext no_env sample_product (Some ''changeme'') empty_world
       = (Inr (VDict [(''id'', VStr ''65f0c0a1b2c3d4e5f6a7b800'')]),
          \<lparr>available = True,
           colls = (\<lambda>_. [])
             (''product'' :=
                [(''65f0c0a1b2c3d4e5f6a7b800'', Product_model_dump sample_product)]),
           issued = 1, trace = [InsertOne ''product'']\<rparr>)"
  using default_admin_token [of no_env sample_ext empty_world sample_product
      "''65f0c0a1b2c3d4e5f6a7b800''" sample_business]
  by (simp add: no_env_def admin_create_product_def create_document_def sample_ext_def
      empty_world_def record_event_def Let_def)

section \<open>The public product listing\<close>

lemma list_products_loop_all:
  "list_products_loop x ds out = Inr ps \<Longrightarrow>
     map Inr ps = map Inr out @ map (\<lambda>d. Product_validate x (snd d)) ds"
proof (induction ds arbitrary: out)
  case Nil
  then show ?case by simp
next
  case (Cons d ds)
  then show ?case by (auto split: sum.splits)
qed

lemma filter_matches_empty: "filter (\<lambda>(i, d). matches [] d) ds = ds"
  by (simp add: matches_def)

text \<open>
  C10. \<open>list_products\<close> with the empty string as category does what it does with no
  category: the query has the empty filter, the loop runs over every document of the
  product collection, and a successful result holds the \<open>Product\<close> of each stored
  document, in order.
\<close>

theorem empty_category_is_no_filter:
  "list_products x (Some '''') w = list_products x None w
   \<and> (available w \<longrightarrow>
        list_products x (Some '''') w
          = (list_products_loop x (colls w ''product'') [], record_event (Find ''product'') w))
   \<and> (\<forall>ps. fst (list_products x (Some '''') w) = Inr ps \<longrightarrow>
        map Inr ps = map (\<lambda>d. Product_validate x (snd d)) (colls w ''product''))"
proof -
  have a: "list_products x (Some '''') w = list_products x None w"
    by (simp add: list_products_def)
  have b: "available w \<Longrightarrow> list_products x (Some '''') w
          = (list_products_loop x (colls w ''product'') [], record_event (Find ''product'') w)"
    by (simp add: list_products_def get_documents_def filter_matches_empty)
  have c: "map Inr ps = map (\<lambda>d. Product_validate x (snd d)) (colls w ''product'')"
    if "fst (list_products x (Some '''') w) = Inr ps" for ps
  proof (cases "available w")
    case True
    with that b have "list_products_loop x (colls w ''product'') [] = Inr ps" by simp
    from list_products_loop_all [OF this] show ?thesis by simp
  next
    case False
    with that show ?thesis by (simp add: list_products_def get_documents_def)
  qed
  from a b c show ?thesis by blast
qed

theorem empty_category_is_no_filter_witness:
  "available product_world
   \<and> fst (list_products sample_ext (Some '''') product_world) = Inr [sample_product]
   \<and> category sample_product = ''ink''"
  using empty_category_is_no_filter [of sample_ext product_world]
  by (simp add: product_world_def list_products_def get_documents_def matches_def
      sample_product_def Product_model_dump_def Product_validate_def required_str_def
      optional_str_def required_float_def default_bool_def sample_ext_def dump_opt_def)

section \<open>Catalog identifiers\<close>

lemma update_first_absent:
  "oid \<notin> fst ` set ds \<Longrightarrow> update_first oid new ds = ds"
  by (induction ds) auto

lemma delete_first_absent:
  "oid \<notin> fst ` set ds \<Longrightarrow> delete_first oid ds = ds"
  by (induction ds) auto

text \<open>
  C5. With the admin token: an identifier that \<open>ObjectId.is_valid\<close> refuses makes
  \<open>admin_update_product\<close> and \<open>admin_delete_product\<close> return the invalid-identifier
  failure with the state as given, so without a call to the store; an identifier it accepts
  and that no stored product has makes them return the not-found failure, after one
  \<open>update_one\<close> or \<open>delete_one\<close> whose matched or deleted count is 0.
\<close>

theorem product_id_errors:
  assumes "x_admin_token = Some (ADMIN_TOKEN env)"
  shows "(\<not> oid_is_valid x product_id \<longrightarrow>
            admin_update_product x env product_id product x_admin_token w = (Inl Invalid_ID, w)
          \<and> admin_delete_product x env product_id x_admin_token w = (Inl Invalid_ID, w))
       \<and> (oid_is_valid x product_id \<and> available w
            \<and> ObjectId x product_id \<notin> fst ` set (colls w ''product'') \<longrightarrow>
            fst (update_one ''product'' (ObjectId x product_id) (Product_model_dump product) w)
              = Inr 0
          \<and> admin_update_product x env product_id product x_admin_token w
              = (Inl Not_found, record_event (UpdateOne ''product'') w)
          \<and> fst (delete_one ''product'' (ObjectId x product_id) w) = Inr 0
          \<and> admin_delete_product x env product_id x_admin_token w
              = (Inl Not_found, record_event (DeleteOne ''product'') w))"
proof -
  have inv: "admin_update_product x env product_id product x_admin_token w = (Inl Invalid_ID, w)
      \<and> admin_delete_product x env product_id x_admin_token w = (Inl Invalid_ID, w)"
    if "\<not> oid_is_valid x product_id"
    using that assms by (simp add: admin_update_product_def admin_delete_product_def)
  have nf: "fst (update_one ''product'' (ObjectId x product_id) (Product_model_dump product) w)
              = Inr 0
          \<and> admin_update_product x env product_id product x_admin_token w
              = (Inl Not_found, record_event (UpdateOne ''product'') w)
          \<and> fst (delete_one ''product'' (ObjectId x product_id) w) = Inr 0
          \<and> admin_delete_product x env product_id x_admin_token w
              = (Inl Not_found, record_event (DeleteOne ''product'') w)"
    if v: "oid_is_valid x product_id" and a: "available w"
      and n: "ObjectId x product_id \<notin> fst ` set (colls w ''product'')"
  proof -
    have same: "w\<lparr>colls := (colls w)(''product'' := colls w ''product'')\<rparr> = w"
      by simp
    have u: "update_one ''product'' (ObjectId x product_id) (Product_model_dump product) w
        = (Inr 0, record_event (UpdateOne ''product'') w)"
      using a n by (simp add: update_one_def update_first_absent same)
    have d: "delete_one ''product'' (ObjectId x product_id) w
        = (Inr 0, record_event (DeleteOne ''product'') w)"
      using a n by (simp add: delete_one_def delete_first_absent same)
    show ?thesis
      using v assms by (simp add: admin_update_product_def admin_delete_product_def u d)
  qed
  from inv nf show ?thesis by blast
qed

theorem product_id_errors_witness:
  "admin_update_product sample_ext no_env ''not-an-id'' sample_product (Some ''changeme'')
       product_world = (Inl Invalid_ID, product_world)
   \<and> admin_delete_product sample_ext no_env ''not-an-id'' (Some ''changeme'') product_world
       = (Inl Invalid_ID, product_world)
   \<and> admin_update_product sample_ext no_env ''65f0c0a1b2c3d4e5f6a7b8ff'' sample_product
       (Some ''changeme'') product_world
       = (Inl Not_found, record_event (UpdateOne ''product'') product_world)
   \<and> admin_delete_product sample_ext no_env ''65f0c0a1b2c3d4e5f6a7b8ff'' (Some ''changeme'')
       product_world
       = (Inl Not_found, record_event (DeleteOne ''product'') product_world)"
proof -
  have tok: "Some ''changeme'' = Some (ADMIN_TOKEN no_env)"
    by (simp add: ADMIN_TOKEN_def getenv_def no_env_def)
  have bad: "\<not> oid_is_valid sample_ext ''not-an-id''"
    by (simp add: sample_ext_def)
  have good: "oid_is_valid sample_ext ''65f0c0a1b2c3d4e5f6a7b8ff'' \<and> available product_world
      \<and> ObjectId sample_ext ''65f0c0a1b2c3d4e5f6a7b8ff''
          \<notin> fst ` set (colls product_world ''product'')"
    by (simp add: sample_ext_def product_world_def)
  from product_id_errors [OF tok, of sample_ext "''not-an-id''" sample_product product_world]
    product_id_errors [OF tok, of sample_ext "''65f0c0a1b2c3d4e5f6a7b8ff''" sample_product
      product_world]
    bad good
  show ?thesis by blast
qed

section \<open>Order intake\<close>

lemma create_ink_order_available:
  assumes "available w"
  shows "create_ink_order x order tasks w =
    (let w2 = record_event (Find ''business'') (record_event (InsertOne ''inkorder'')
                (w\<lparr>colls := (colls w)(''inkorder'' := colls w ''inkorder''
                       @ [(new_oid x (issued w), InkOrder_model_dump order)]),
                   issued := Suc (issued w)\<rparr>))
     in case colls w ''business'' of
          [] \<Rightarrow> (Inr stored_not_configured, tasks, w2)
        | d # _ \<Rightarrow>
            (case Business_validate x (snd d) of
               Inl e \<Rightarrow> (Inl e, tasks, w2)
             | Inr b \<Rightarrow> (Inr status_ok, tasks @ [(order, b)], record_event AddTask w2)))"
  using assms
  by (simp add: create_ink_order_def create_document_def get_documents_def record_event_def
      Let_def filter_matches_empty split: list.splits sum.splits)

lemma sample_order_valid: "InkOrder_validate sample_ext sample_order_body = Inr sample_order"
  by (simp add: InkOrder_validate_def sample_order_body_def sample_order_def sample_ext_def
      required_str_def required_email_def optional_str_def required_float_def)




text \<open>
  C4. A valid Ink Order submitted while the store is available and the \<open>business\<close>
  collection is empty: the response is "stored, notification not configured", the task
  queue of the request is returned as it was given, no dispatch runs, and the calls of the
  request are the insertion of the order and the lookup, nothing else.
\<close>

theorem no_business_no_dispatch:
  assumes "available w"
    and "InkOrder_validate x body = Inr order"
    and "colls w ''business'' = []"
  shows "\<exists>w'. post_orders_ink x env body w = (Inr stored_not_configured, [], w')
            \<and> create_ink_order x order tasks w = (Inr stored_not_configured, tasks, w')
            \<and> trace w' = trace w @ [InsertOne ''inkorder'', Find ''business'']
            \<and> colls w' ''inkorder''
                = colls w ''inkorder'' @ [(new_oid x (issued w), InkOrder_model_dump order)]"
  using assms
  by (simp add: post_orders_ink_def create_ink_order_available record_event_def Let_def)

theorem no_business_no_dispatch_witness:
  "available empty_world
   \<and> InkOrder_validate sample_ext sample_order_body = Inr sample_order
   \<and> colls empty_world ''business'' = []
   \<and> fst (post_orders_ink sample_ext no_env sample_order_body empty_world)
       = Inr (VDict [(''status'', VStr ''stored''), (''email'', VStr ''not_configured'')])
   \<and> fst (snd (post_orders_ink sample_ext no_env sample_order_body empty_world)) = []
   \<and> trace (snd (snd (post_orders_ink sample_ext no_env sample_order_body empty_world)))
       = [InsertOne ''inkorder'', Find ''business'']"
proof -
  have a: "available empty_world" and b: "colls empty_world ''business'' = []"
    and t: "trace empty_world = []"
    by (simp_all add: empty_world_def)
  from no_business_no_dispatch [OF a sample_order_valid b, of no_env "[]"] a b t
    sample_order_valid
  show ?thesis
    by (auto simp: stored_not_configured_def)
qed

section \<open>The business profile\<close>

lemma set_fields_Cons:
  "set_fields ((k, v) # new) d = set_fields new (AList.update k v d)"
  by (simp add: set_fields_def)

lemma set_fields_other:
  "k \<notin> fst ` set new \<Longrightarrow> map_of (set_fields new d) k = map_of d k"
proof (induction new arbitrary: d)
  case Nil
  then show ?case by (simp add: set_fields_def)
next
  case (Cons a new)
  obtain k' v where a: "a = (k', v)" by (cases a)
  with Cons show ?case
    by (simp add: set_fields_Cons update_conv')
qed

lemma set_fields_lookup:
  "distinct (map fst new) \<Longrightarrow> k \<in> fst ` set new \<Longrightarrow>
     map_of (set_fields new d) k = map_of new k"
proof (induction new arbitrary: d)
  case Nil
  then show ?case by simp
next
  case (Cons a new)
  obtain k' v where a: "a = (k', v)" by (cases a)
  show ?case
  proof (cases "k = k'")
    case True
    with Cons.prems a have "k \<notin> fst ` set new" by auto
    then show ?thesis
      using True a by (simp add: set_fields_Cons set_fields_other update_conv')
  next
    case False
    with Cons a show ?thesis
      by (auto simp: set_fields_Cons)
  qed
qed

lemma Business_model_dump_distinct: "distinct (map fst (Business_model_dump b))"
  by (simp add: Business_model_dump_def)

lemma upsert_empty:
  assumes "available w" and "colls w ''business'' = []"
  shows "admin_upsert_business x env b (Some (ADMIN_TOKEN env)) w =
     (Inr (VDict [(''created'', VBool True)]),
      record_event (InsertOne ''business'') (record_event (Find ''business'')
        (w\<lparr>colls := (colls w)(''business'' := [(new_oid x (issued w), Business_model_dump b)]),
           issued := Suc (issued w)\<rparr>)))"
  using assms
  by (simp add: admin_upsert_business_def get_documents_def create_document_def
      record_event_def Let_def)

lemma upsert_nonempty:
  assumes "available w" and "colls w ''business'' = (i, d) # ds"
  shows "admin_upsert_business x env b (Some (ADMIN_TOKEN env)) w =
     (Inr (VDict [(''updated'', VBool True)]),
      record_event (UpdateOne ''business'') (record_event (Find ''business'')
        (w\<lparr>colls := (colls w)(''business'' := (i, set_fields (Business_model_dump b) d) # ds)\<rparr>)))"
  using assms
  by (simp add: admin_upsert_business_def get_documents_def update_one_def
      record_event_def Let_def filter_matches_empty matches_def)

lemma upsert_cases:
  assumes "available w"
  shows "\<exists>w1. admin_upsert_business x env b (Some (ADMIN_TOKEN env)) w
           = (Inr (VDict [(if colls w ''business'' = [] then ''created'' else ''updated'',
                           VBool True)]), w1)
         \<and> available w1
         \<and> colls w1 ''business''
             = (case colls w ''business'' of
                  [] \<Rightarrow> [(new_oid x (issued w), Business_model_dump b)]
                | (i, d) # ds \<Rightarrow> (i, set_fields (Business_model_dump b) d) # ds)"
proof (cases "colls w ''business''")
  case Nil
  with assms show ?thesis by (simp add: upsert_empty record_event_def)
next
  case (Cons a ds)
  obtain i d where "a = (i, d)" by (cases a)
  with Cons assms show ?thesis by (simp add: upsert_nonempty record_event_def)
qed

text \<open>
  C2. \<open>admin_upsert_business\<close> with the admin token on an available store. With an
  empty \<open>business\<close> collection it inserts the payload as the only record and returns
  "created"; with a stored record it assigns the payload's fields to the first record, found
  by its \<open>_id\<close>, leaves the others as they are, and returns "updated". So when at most one
  record is stored, two calls in sequence leave exactly one record, under the identifier it
  had after the first call, and every field of the second payload is read from it.
\<close>

theorem upsert_business_singleton:
  assumes "available w"
    and "x_admin_token = Some (ADMIN_TOKEN env)"
    and "admin_upsert_business x env b1 x_admin_token w = (r1, w1)"
    and "admin_upsert_business x env b2 x_admin_token w1 = (r2, w2)"
  shows "(colls w ''business'' = [] \<longrightarrow>
            r1 = Inr (VDict [(''created'', VBool True)])
          \<and> colls w1 ''business'' = [(new_oid x (issued w), Business_model_dump b1)])
       \<and> (\<forall>i d ds. colls w ''business'' = (i, d) # ds \<longrightarrow>
            r1 = Inr (VDict [(''updated'', VBool True)])
          \<and> colls w1 ''business'' = (i, set_fields (Business_model_dump b1) d) # ds)
       \<and> (length (colls w ''business'') \<le> 1 \<longrightarrow>
            r2 = Inr (VDict [(''updated'', VBool True)])
          \<and> (\<exists>i d. colls w1 ''business'' = [(i, d)]
                \<and> colls w2 ''business'' = [(i, set_fields (Business_model_dump b2) d)]
                \<and> (\<forall>k \<in> fst ` set (Business_model_dump b2).
                      map_of (set_fields (Business_model_dump b2) d) k
                        = map_of (Business_model_dump b2) k)))"
proof -
  from upsert_cases [OF assms(1), of x env b1] assms(2,3)
  have r1: "r1 = Inr (VDict [(if colls w ''business'' = [] then ''created'' else ''updated'',
                           VBool True)])"
    and a1: "available w1"
    and c1: "colls w1 ''business''
             = (case colls w ''business'' of
                  [] \<Rightarrow> [(new_oid x (issued w), Business_model_dump b1)]
                | (i, d) # ds \<Rightarrow> (i, set_fields (Business_model_dump b1) d) # ds)"
    by auto
  from upsert_cases [OF a1, of x env b2] assms(2,4)
  have r2: "r2 = Inr (VDict [(if colls w1 ''business'' = [] then ''created'' else ''updated'',
                           VBool True)])"
    and c2: "colls w2 ''business''
             = (case colls w1 ''business'' of
                  [] \<Rightarrow> [(new_oid x (issued w1), Business_model_dump b2)]
                | (i, d) # ds \<Rightarrow> (i, set_fields (Business_model_dump b2) d) # ds)"
    by auto
  have first: "colls w ''business'' = [] \<longrightarrow>
            r1 = Inr (VDict [(''created'', VBool True)])
          \<and> colls w1 ''business'' = [(new_oid x (issued w), Business_model_dump b1)]"
    using r1 c1 by simp
  have second: "\<forall>i d ds. colls w ''business'' = (i, d) # ds \<longrightarrow>
            r1 = Inr (VDict [(''updated'', VBool True)])
          \<and> colls w1 ''business'' = (i, set_fields (Business_model_dump b1) d) # ds"
    using r1 c1 by simp
  have third: "r2 = Inr (VDict [(''updated'', VBool True)])
          \<and> (\<exists>i d. colls w1 ''business'' = [(i, d)]
                \<and> colls w2 ''business'' = [(i, set_fields (Business_model_dump b2) d)]
                \<and> (\<forall>k \<in> fst ` set (Business_model_dump b2).
                      map_of (set_fields (Business_model_dump b2) d) k
                        = map_of (Business_model_dump b2) k))"
    if le: "length (colls w ''business'') \<le> 1"
  proof -
    from le c1 obtain i d where one: "colls w1 ''business'' = [(i, d)]"
      by (cases "colls w ''business''") (auto split: list.splits)
    with r2 c2 have "r2 = Inr (VDict [(''updated'', VBool True)])"
      and "colls w2 ''business'' = [(i, set_fields (Business_model_dump b2) d)]"
      by simp_all
    with one show ?thesis
      using set_fields_lookup [OF Business_model_dump_distinct] by blast
  qed
  from first second third show ?thesis by blast
qed

theorem upsert_business_singleton_witness:
  "available empty_world
   \<and> sample_business \<noteq> sample_business2
   \<and> fst (admin_upsert_business sample_ext no_env sample_business (Some ''changeme'') empty_world)
       = Inr (VDict [(''created'', VBool True)])
   \<and> fst (admin_upsert_business sample_ext no_env sample_business2 (Some ''changeme'')
         (snd (admin_upsert_business sample_ext no_env sample_business (Some ''changeme'')
            empty_world)))
       = Inr (VDict [(''updated'', VBool True)])
   \<and> colls (snd (admin_upsert_business sample_ext no_env sample_business2 (Some ''changeme'')
         (snd (admin_upsert_business sample_ext no_env sample_business (Some ''changeme'')
            empty_world)))) ''business''
       = [(''65f0c0a1b2c3d4e5f6a7b800'', Business_model_dump sample_business2)]"
proof -
  have tok: "Some ''changeme'' = Some (ADMIN_TOKEN no_env)"
    by (simp add: ADMIN_TOKEN_def getenv_def no_env_def)
  have a: "available empty_world" and e: "colls empty_world ''business'' = []"
    and n: "new_oid sample_ext (issued empty_world) = ''65f0c0a1b2c3d4e5f6a7b800''"
    by (simp_all add: empty_world_def sample_ext_def)
  obtain r1 w1 where
    u1: "admin_upsert_business sample_ext no_env sample_business (Some ''changeme'') empty_world
      = (r1, w1)"
    by (cases "admin_upsert_business sample_ext no_env sample_business (Some ''changeme'')
      empty_world") auto
  obtain r2 w2 where
    u2: "admin_upsert_business sample_ext no_env sample_business2 (Some ''changeme'') w1
      = (r2, w2)"
    by (cases "admin_upsert_business sample_ext no_env sample_business2 (Some ''changeme'') w1")
      auto
  have s: "set_fields (Business_model_dump sample_business2)
      (Business_model_dump sample_business) = Business_model_dump sample_business2"
    by (simp add: set_fields_def Business_model_dump_def sample_business2_def
        sample_business_def dump_opt_def)
  have d: "sample_business \<noteq> sample_business2"
    by (simp add: sample_business2_def sample_business_def)
  from upsert_business_singleton [OF a tok u1 u2] e n s
  have "r1 = Inr (VDict [(''created'', VBool True)])"
    and "r2 = Inr (VDict [(''updated'', VBool True)])"
    and "colls w2 ''business''
      = [(''65f0c0a1b2c3d4e5f6a7b800'', Business_model_dump sample_business2)]"
    by auto
  with u1 u2 a d show ?thesis by simp
qed

section \<open>The notification message\<close>

text \<open>
  C8. Whenever \<open>send_order_email\<close> composes a message, its subject is "New Ink Order: ",
  the color, " - ", the quantity and " L"; its body lists the customer name, the customer
  email, the phone, the color, the quantity, the delivery address and the message, in the
  layout of the source, where the phone, the delivery address and the message are the
  string "-" when the field is absent and the field itself when it is a non-empty string.
\<close>

theorem order_email_contents:
  assumes "send_order_email x env order business = Inr (host, port, msg)"
  shows "Subject msg
           = ''New Ink Order: '' @ color order @ '' - ''
               @ format_float x (quantity_liters order) @ '' L''
       \<and> (\<exists>ph ad ms.
            content msg
              = ''New Ink Order Received'' @ nl @ nl
                @ ''Customer: '' @ customer_name order @ nl
                @ ''Email: '' @ customer_email order @ nl
                @ ''Phone: '' @ ph @ nl @ nl
                @ ''Color: '' @ color order @ nl
                @ ''Quantity (L): '' @ format_float x (quantity_liters order) @ nl
                @ ''Delivery Address: '' @ ad @ nl @ nl
                @ ''Message:'' @ nl @ ms @ nl
          \<and> (customer_phone order = None \<longrightarrow> ph = ''-'')
          \<and> (\<forall>s. customer_phone order = Some s \<and> s \<noteq> [] \<longrightarrow> ph = s)
          \<and> (delivery_address order = None \<longrightarrow> ad = ''-'')
          \<and> (\<forall>s. delivery_address order = Some s \<and> s \<noteq> [] \<longrightarrow> ad = s)
          \<and> (message order = None \<longrightarrow> ms = ''-'')
          \<and> (\<forall>s. message order = Some s \<and> s \<noteq> [] \<longrightarrow> ms = s))"
proof -
  from assms have m: "msg = \<lparr>Subject = order_email_subject x order,
      From = (case env ''SMTP_USER'' of None \<Rightarrow> email business
              | Some u \<Rightarrow> if u = [] then email business else u),
      To = email business, content = order_email_body x order\<rparr>"
    by (auto simp: send_order_email_def Let_def split: option.splits if_splits)
  have s: "Subject msg = ''New Ink Order: '' @ color order @ '' - ''
               @ format_float x (quantity_liters order) @ '' L''"
    by (simp add: m order_email_subject_def)
  have c: "content msg
              = ''New Ink Order Received'' @ nl @ nl
                @ ''Customer: '' @ customer_name order @ nl
                @ ''Email: '' @ customer_email order @ nl
                @ ''Phone: '' @ or_dash (customer_phone order) @ nl @ nl
                @ ''Color: '' @ color order @ nl
                @ ''Quantity (L): '' @ format_float x (quantity_liters order) @ nl
                @ ''Delivery Address: '' @ or_dash (delivery_address order) @ nl @ nl
                @ ''Message:'' @ nl @ or_dash (message order) @ nl"
    by (simp add: m order_email_body_def)
  have d: "or_dash None = ''-''" "\<And>s. s \<noteq> [] \<Longrightarrow> or_dash (Some s) = s"
    by (simp_all add: or_dash_def)
  have e: "(customer_phone order = None \<longrightarrow> or_dash (customer_phone order) = ''-'')
      \<and> (\<forall>s. customer_phone order = Some s \<and> s \<noteq> [] \<longrightarrow> or_dash (customer_phone order) = s)
      \<and> (delivery_address order = None \<longrightarrow> or_dash (delivery_address order) = ''-'')
      \<and> (\<forall>s. delivery_address order = Some s \<and> s \<noteq> [] \<longrightarrow> or_dash (delivery_address order) = s)
      \<and> (message order = None \<longrightarrow> or_dash (message order) = ''-'')
      \<and> (\<forall>s. message order = Some s \<and> s \<noteq> [] \<longrightarrow> or_dash (message order) = s)"
    by (simp add: d)
  show ?thesis
    apply (rule conjI [OF s])
    apply (rule exI [of _ "or_dash (customer_phone order)"])
    apply (rule exI [of _ "or_dash (delivery_address order)"])
    apply (rule exI [of _ "or_dash (message order)"])
    apply (rule conjI [OF c e])
    done
qed

theorem order_email_contents_witness:
  "send_order_email sample_ext smtp_env sample_order sample_business
     = Inr (''smtp.example.com'', 587,
            \<lparr>Subject = ''New Ink Order: Red - 5.0 L'',
             From = ''owner@laxmi.example'',
             To = ''owner@laxmi.example'',
             content = ''New Ink Order Received'' @ nl @ nl
               @ ''Customer: A'' @ nl
               @ ''Email: a@x.com'' @ nl
               @ ''Phone: -'' @ nl @ nl
               @ ''Color: Red'' @ nl
               @ ''Quantity (L): 5.0'' @ nl
               @ ''Delivery Address: -'' @ nl @ nl
               @ ''Message:'' @ nl @ ''-'' @ nl\<rparr>)
   \<and> customer_phone sample_order = None
   \<and> delivery_address sample_order = None
   \<and> message sample_order = None"
proof -
  have h: "send_order_email sample_ext smtp_env sample_order sample_business
     = Inr (''smtp.example.com'', 587,
            \<lparr>Subject = order_email_subject sample_ext sample_order,
             From = ''owner@laxmi.example'',
             To = ''owner@laxmi.example'',
             content = order_email_body sample_ext sample_order\<rparr>)"
    by (simp add: send_order_email_def smtp_env_def getenv_def sample_ext_def
        sample_business_def order_email_subject_def sample_order_def nl_def Let_def)
  have n: "customer_phone sample_order = None" "delivery_address sample_order = None"
      "message sample_order = None"
      "color sample_order = ''Red''" "customer_name sample_order = ''A''"
      "customer_email sample_order = ''a@x.com''"
      "format_float sample_ext (quantity_liters sample_order) = ''5.0''"
    by (simp_all add: sample_order_def sample_ext_def)
  from order_email_contents [OF h] n
  have "Subject \<lparr>Subject = order_email_subject sample_ext sample_order,
             From = ''owner@laxmi.example'',
             To = ''owner@laxmi.example'',
             content = order_email_body sample_ext sample_order\<rparr>
          = ''New Ink Order: Red - 5.0 L''"
    and "content \<lparr>Subject = order_email_subject sample_ext sample_order,
             From = ''owner@laxmi.example'',
             To = ''owner@laxmi.example'',
             content = order_email_body sample_ext sample_order\<rparr>
          = ''New Ink Order Received'' @ nl @ nl
               @ ''Customer: A'' @ nl
               @ ''Email: a@x.com'' @ nl
               @ ''Phone: -'' @ nl @ nl
               @ ''Color: Red'' @ nl
               @ ''Quantity (L): 5.0'' @ nl
               @ ''Delivery Address: -'' @ nl @ nl
               @ ''Message:'' @ nl @ ''-'' @ nl"
    by auto
  with h n show ?thesis by simp
qed

section \<open>Validation of required strings\<close>

lemma readers_update_other:
  assumes "k \<noteq> k'"
  shows "required_str (AList.update k v d) k' = required_str d k'"
    and "optional_str (AList.update k v d) k' = optional_str d k'"
    and "required_float x (AList.update k v d) k' = required_float x d k'"
    and "required_email x (AList.update k v d) k' = required_email x d k'"
    and "default_bool x (AList.update k v d) k' dflt = default_bool x d k' dflt"
  using assms
  by (simp_all add: required_str_def optional_str_def required_float_def required_email_def
      default_bool_def update_conv')

lemma required_str_update: "required_str (AList.update k (VStr s) d) k = Some s"
  by (simp add: required_str_def update_conv')

lemma required_str_None:
  "(\<forall>s. map_of d k \<noteq> Some (VStr s)) \<Longrightarrow> required_str d k = None"
  by (auto simp: required_str_def split: option.splits val.splits)

text \<open>
  C6, as stated, fails: an order whose color is the empty string passes validation, is
  answered "stored", and is in the \<open>inkorder\<close> collection afterwards.
\<close>

theorem empty_color_accepted:
  "map_of empty_color_body ''color'' = Some (VStr '''')
   \<and> fst (post_orders_ink sample_ext no_env empty_color_body empty_world)
       = Inr stored_not_configured
   \<and> colls (snd (snd (post_orders_ink sample_ext no_env empty_color_body empty_world)))
         ''inkorder''
       = [(''65f0c0a1b2c3d4e5f6a7b800'',
           [(''customer_name'', VStr ''A''), (''customer_email'', VStr ''a@x.com''),
            (''customer_phone'', VNull), (''color'', VStr ''''),
            (''quantity_liters'', VNum 5), (''message'', VNull),
            (''delivery_address'', VNull)])]"
proof -
  have v: "InkOrder_validate sample_ext empty_color_body = Inr (sample_order\<lparr>color := ''''\<rparr>)"
    by (simp add: InkOrder_validate_def empty_color_body_def sample_order_def sample_ext_def
        required_str_def required_email_def optional_str_def required_float_def)
  have a: "available empty_world" and b: "colls empty_world ''business'' = []"
    and c: "colls empty_world ''inkorder'' = []"
    and n: "new_oid sample_ext (issued empty_world) = ''65f0c0a1b2c3d4e5f6a7b800''"
    by (simp_all add: empty_world_def sample_ext_def)
  have d: "InkOrder_model_dump (sample_order\<lparr>color := ''''\<rparr>)
      = [(''customer_name'', VStr ''A''), (''customer_email'', VStr ''a@x.com''),
            (''customer_phone'', VNull), (''color'', VStr ''''),
            (''quantity_liters'', VNum 5), (''message'', VNull),
            (''delivery_address'', VNull)]"
    by (simp add: InkOrder_model_dump_def sample_order_def dump_opt_def)
  have m: "map_of empty_color_body ''color'' = Some (VStr '''')"
    by (simp add: empty_color_body_def)
  show ?thesis
    using a b c n d m
    by (simp add: post_orders_ink_def v create_ink_order_available Let_def record_event_def)
qed

text \<open>
  C6, amended. The color is a required string with no constraint on its content: a body
  that validates still validates when its color is replaced by any string, the empty one
  included, and the order carries that string; a body whose color is absent or is not a
  string is rejected with the validation failure, and the state is unchanged.
\<close>

theorem color_is_open_string:
  "(InkOrder_validate x body = Inr order \<longrightarrow>
      InkOrder_validate x (AList.update ''color'' (VStr c) body) = Inr (order\<lparr>color := c\<rparr>))
   \<and> ((\<forall>s. map_of body ''color'' \<noteq> Some (VStr s)) \<longrightarrow>
        post_orders_ink x env body w = (Inl ValidationError, [], w))"
proof -
  have a: "InkOrder_validate x (AList.update ''color'' (VStr c) body) = Inr (order\<lparr>color := c\<rparr>)"
    if "InkOrder_validate x body = Inr order"
    using that
    by (auto simp: InkOrder_validate_def readers_update_other required_str_update
        split: option.splits if_splits)
  have b: "post_orders_ink x env body w = (Inl ValidationError, [], w)"
    if "\<forall>s. map_of body ''color'' \<noteq> Some (VStr s)"
  proof -
    from that have "required_str body ''color'' = None" by (rule required_str_None)
    then have "InkOrder_validate x body = Inl ValidationError"
      by (simp add: InkOrder_validate_def split: option.splits)
    then show ?thesis by (simp add: post_orders_ink_def)
  qed
  from a b show ?thesis by blast
qed

theorem color_is_open_string_witness:
  "InkOrder_validate sample_ext sample_order_body = Inr sample_order
   \<and> InkOrder_validate sample_ext (AList.update ''color'' (VStr '''') sample_order_body)
       = Inr (sample_order\<lparr>color := ''''\<rparr>)
   \<and> map_of no_color_body ''color'' = None
   \<and> post_orders_ink sample_ext no_env no_color_body empty_world
       = (Inl ValidationError, [], empty_world)"
proof -
  have "\<forall>s. map_of no_color_body ''color'' \<noteq> Some (VStr s)"
    and n: "map_of no_color_body ''color'' = None"
    by (simp_all add: no_color_body_def)
  with color_is_open_string [of sample_ext sample_order_body sample_order "''''"
      no_env empty_world]
    color_is_open_string [of sample_ext no_color_body sample_order "''''" no_env empty_world]
    sample_order_valid
  show ?thesis by blast
qed

text \<open>
  C7, as stated, fails: a product whose title is the empty string passes validation;
  \<open>POST /admin/products\<close> stores it and returns its identifier, and
  \<open>PUT /admin/products/{product_id}\<close> writes it over the stored product.
\<close>

theorem empty_title_accepted:
  "map_of empty_title_body ''title'' = Some (VStr '''')
   \<and> fst (post_admin_products sample_ext no_env empty_title_body (Some ''changeme'') empty_world)
       = Inr (VDict [(''id'', VStr ''65f0c0a1b2c3d4e5f6a7b800'')])
   \<and> colls (snd (post_admin_products sample_ext no_env empty_title_body (Some ''changeme'')
         empty_world)) ''product''
       = [(''65f0c0a1b2c3d4e5f6a7b800'',
           [(''title'', VStr ''''), (''description'', VNull), (''price'', VNum 120),
            (''category'', VStr ''ink''), (''in_stock'', VBool True), (''image_url'', VNull)])]
   \<and> fst (put_admin_products sample_ext no_env ''65f0c0a1b2c3d4e5f6a7b800'' empty_title_body
         (Some ''changeme'') product_world)
       = Inr (VDict [(''updated'', VBool True)])
   \<and> colls (snd (put_admin_products sample_ext no_env ''65f0c0a1b2c3d4e5f6a7b800''
         empty_title_body (Some ''changeme'') product_world)) ''product''
       = [(''65f0c0a1b2c3d4e5f6a7b800'',
           [(''title'', VStr ''''), (''description'', VNull), (''price'', VNum 120),
            (''category'', VStr ''ink''), (''in_stock'', VBool True), (''image_url'', VNull)])]"
proof -
  have v: "Product_validate sample_ext empty_title_body = Inr (sample_product\<lparr>title := ''''\<rparr>)"
    by (simp add: Product_validate_def empty_title_body_def sample_product_def sample_ext_def
        required_str_def optional_str_def required_float_def default_bool_def)
  have d: "Product_model_dump (sample_product\<lparr>title := ''''\<rparr>)
      = [(''title'', VStr ''''), (''description'', VNull), (''price'', VNum 120),
            (''category'', VStr ''ink''), (''in_stock'', VBool True), (''image_url'', VNull)]"
    by (simp add: Product_model_dump_def sample_product_def dump_opt_def)
  have tok: "ADMIN_TOKEN no_env = ''changeme''"
    by (simp add: ADMIN_TOKEN_def getenv_def no_env_def)
  have m: "map_of empty_title_body ''title'' = Some (VStr '''')"
    by (simp add: empty_title_body_def)
  have x: "new_oid sample_ext 0 = ''65f0c0a1b2c3d4e5f6a7b800''"
      "oid_str sample_ext ''65f0c0a1b2c3d4e5f6a7b800'' = ''65f0c0a1b2c3d4e5f6a7b800''"
      "ObjectId sample_ext ''65f0c0a1b2c3d4e5f6a7b800'' = ''65f0c0a1b2c3d4e5f6a7b800''"
      "oid_is_valid sample_ext ''65f0c0a1b2c3d4e5f6a7b800''"
    by (simp_all add: sample_ext_def)
  have c: "post_admin_products sample_ext no_env empty_title_body (Some ''changeme'') empty_world
      = (Inr (VDict [(''id'', VStr ''65f0c0a1b2c3d4e5f6a7b800'')]),
         record_event (InsertOne ''product'')
           (empty_world\<lparr>colls := (colls empty_world)(''product'' :=
               [(''65f0c0a1b2c3d4e5f6a7b800'', Product_model_dump (sample_product\<lparr>title := ''''\<rparr>))]),
              issued := 1\<rparr>))"
    by (simp add: post_admin_products_def v admin_create_product_def tok create_document_def
        Let_def empty_world_def x)
  have s: "set_fields (Product_model_dump (sample_product\<lparr>title := ''''\<rparr>))
      (Product_model_dump sample_product) = Product_model_dump (sample_product\<lparr>title := ''''\<rparr>)"
    by (simp add: set_fields_def Product_model_dump_def sample_product_def dump_opt_def)
  have u: "put_admin_products sample_ext no_env ''65f0c0a1b2c3d4e5f6a7b800'' empty_title_body
         (Some ''changeme'') product_world
      = (Inr (VDict [(''updated'', VBool True)]),
         record_event (UpdateOne ''product'')
           (product_world\<lparr>colls := (colls product_world)(''product'' :=
               [(''65f0c0a1b2c3d4e5f6a7b800'', Product_model_dump (sample_product\<lparr>title := ''''\<rparr>))])\<rparr>))"
    by (simp add: put_admin_products_def v admin_update_product_def tok update_one_def s
        product_world_def x)
  show ?thesis
    by (simp add: m c u d record_event_def)
qed

text \<open>
  C7, amended. The title is a required string with no constraint on its content: a body
  whose title is absent or is not a string is rejected with the validation failure by the
  create and the update route, with the state unchanged; a body that validates still
  validates when its title is replaced by any string, the empty one included.
\<close>

theorem title_is_required_string:
  "((\<forall>s. map_of body ''title'' \<noteq> Some (VStr s)) \<longrightarrow>
      post_admin_products x env body x_admin_token w = (Inl ValidationError, w)
    \<and> put_admin_products x env product_id body x_admin_token w = (Inl ValidationError, w))
   \<and> (Product_validate x body = Inr product \<longrightarrow>
        Product_validate x (AList.update ''title'' (VStr t) body) = Inr (product\<lparr>title := t\<rparr>))"
proof -
  have a: "post_admin_products x env body x_admin_token w = (Inl ValidationError, w)
    \<and> put_admin_products x env product_id body x_admin_token w = (Inl ValidationError, w)"
    if "\<forall>s. map_of body ''title'' \<noteq> Some (VStr s)"
  proof -
    from that have "required_str body ''title'' = None" by (rule required_str_None)
    then have "Product_validate x body = Inl ValidationError"
      by (simp add: Product_validate_def)
    then show ?thesis by (simp add: post_admin_products_def put_admin_products_def)
  qed
  have b: "Product_validate x (AList.update ''title'' (VStr t) body) = Inr (product\<lparr>title := t\<rparr>)"
    if "Product_validate x body = Inr product"
    using that
    by (auto simp: Product_validate_def readers_update_other required_str_update
        split: option.splits if_splits)
  from a b show ?thesis by blast
qed

theorem title_is_required_string_witness:
  "map_of no_title_body ''title'' = None
   \<and> post_admin_products sample_ext no_env no_title_body (Some ''changeme'') empty_world
       = (Inl ValidationError, empty_world)
   \<and> put_admin_products sample_ext no_env ''65f0c0a1b2c3d4e5f6a7b800'' no_title_body
         (Some ''changeme'') product_world
       = (Inl ValidationError, product_world)
   \<and> Product_validate sample_ext (Product_model_dump sample_product) = Inr sample_product
   \<and> Product_validate sample_ext
         (AList.update ''title'' (VStr '''') (Product_model_dump sample_product))
       = Inr (sample_product\<lparr>title := ''''\<rparr>)"
proof -
  have n: "map_of no_title_body ''title'' = None"
    and "\<forall>s. map_of no_title_body ''title'' \<noteq> Some (VStr s)"
    by (simp_all add: no_title_body_def)
  moreover have v: "Product_validate sample_ext (Product_model_dump sample_product)
      = Inr sample_product"
    by (simp add: Product_validate_def Product_model_dump_def sample_product_def sample_ext_def
        required_str_def optional_str_def required_float_def default_bool_def dump_opt_def)
  ultimately show ?thesis
    using title_is_required_string [of no_title_body sample_ext no_env "Some ''changeme''"
        empty_world "''65f0c0a1b2c3d4e5f6a7b800''" sample_product "''''"]
      title_is_required_string [of no_title_body sample_ext no_env "Some ''changeme''"
        product_world "''65f0c0a1b2c3d4e5f6a7b800''" sample_product "''''"]
      title_is_required_string [of "Product_model_dump sample_product" sample_ext no_env
        "Some ''changeme''" empty_world "''65f0c0a1b2c3d4e5f6a7b800''" sample_product "''''"]
    by blast
qed

end
